theory Spec2Isabelle
  imports Complex_Main "HOL-Library.Sublist"
begin

section \<open>Python values held in a result bundle\<close>

text \<open>
  The external framework hands back a state mapping and a decision. The values this
  repository reads from them are texts, the sequence of debate rounds, or nothing.
  A Python \<open>str\<close> is modelled as a \<open>string\<close>, so a character is one of the code points
  0..255. Pictographs that prefix some user-interface messages in the source are outside
  that range and are left out of the string literals below.
\<close>

datatype pyval = PNone | PStr string | PSeq "string list"

text \<open>Python truthiness, as used by \<open>if x:\<close> and \<open>a and b\<close>.\<close>

fun truthy :: "pyval \<Rightarrow> bool" where
  "truthy PNone = False"
| "truthy (PStr s) = (s \<noteq> [])"
| "truthy (PSeq xs) = (xs \<noteq> [])"


subsection \<open>Strings\<close>

abbreviation LF :: char where "LF \<equiv> CHR 0x0A"
abbreviation DQUOTE :: char where "DQUOTE \<equiv> CHR 0x22"
abbreviation SQUOTE :: char where "SQUOTE \<equiv> CHR 0x27"
abbreviation BACKSLASH :: char where "BACKSLASH \<equiv> CHR 0x5C"

definition hexdigit :: "nat \<Rightarrow> char" where
  "hexdigit n = ''0123456789abcdef'' ! (n mod 16)"

definition digit :: "nat \<Rightarrow> char" where
  "digit n = ''0123456789'' ! (n mod 10)"

text \<open>\<open>'%0wd' % n\<close> for a number of at most \<open>w\<close> digits, and \<open>str(n)\<close>.\<close>

fun zpad :: "nat \<Rightarrow> nat \<Rightarrow> string" where
  "zpad 0 n = []"
| "zpad (Suc w) n = zpad w (n div 10) @ [digit n]"

fun str_nat :: "nat \<Rightarrow> string" where
  "str_nat n = (if n < 10 then [digit n] else str_nat (n div 10) @ [digit n])"

declare str_nat.simps [simp del]

text \<open>\<open>sep.join(xs)\<close>.\<close>

fun join :: "string \<Rightarrow> string list \<Rightarrow> string" where
  "join sep [] = []"
| "join sep [x] = x"
| "join sep (x # y # ys) = x @ sep @ join sep (y # ys)"

text \<open>
  \<open>repr\<close> of a string: single quotes unless the string has a single and no double quote;
  the quote and the backslash are escaped, tab, newline and return have their letters, and
  the other non-printable code points below 256 are written as a backslash, \<open>x\<close> and two
  hexadecimal digits.
\<close>

definition repr_char :: "char \<Rightarrow> char \<Rightarrow> string" where
  "repr_char q c =
     (let n = (of_char c :: nat) in
      if c = q \<or> c = BACKSLASH then [BACKSLASH, c]
      else if c = CHR 0x09 then [BACKSLASH, CHR ''t'']
      else if c = LF then [BACKSLASH, CHR ''n'']
      else if c = CHR 0x0D then [BACKSLASH, CHR ''r'']
      else if n < 32 \<or> n = 127 \<or> (128 \<le> n \<and> n \<le> 160) \<or> n = 173
        then [BACKSLASH, CHR ''x'', hexdigit (n div 16), hexdigit n]
      else [c])"

definition repr_str :: "string \<Rightarrow> string" where
  "repr_str s =
     (let q = (if SQUOTE \<in> set s \<and> DQUOTE \<notin> set s then DQUOTE else SQUOTE)
      in q # concat (map (repr_char q) s) @ [q])"

text \<open>\<open>str(v)\<close>, which is also what an f-string puts for \<open>{v}\<close>.\<close>

fun py_str :: "pyval \<Rightarrow> string" where
  "py_str PNone = ''None''"
| "py_str (PStr s) = s"
| "py_str (PSeq xs) = ''['' @ join '', '' (map repr_str xs) @ '']''"

text \<open>\<open>s.lower()\<close> on the code points below 256: A-Z and the upper-case Latin-1 letters.\<close>

definition lower_char :: "char \<Rightarrow> char" where
  "lower_char c =
     (let n = (of_char c :: nat) in
      if (65 \<le> n \<and> n \<le> 90) \<or> (192 \<le> n \<and> n \<le> 222 \<and> n \<noteq> 215) then char_of (n + 32) else c)"

definition lower :: "string \<Rightarrow> string" where
  "lower s = map lower_char s"

text \<open>Iterating over a value: a sequence gives its items, a text its characters.\<close>

datatype py_error = IndexError | TypeError

fun py_iter :: "pyval \<Rightarrow> py_error + string list" where
  "py_iter PNone = Inl TypeError"
| "py_iter (PStr s) = Inr (map (\<lambda>c. [c]) s)"
| "py_iter (PSeq xs) = Inr xs"

section \<open>The result bundle and the session state\<close>

record datetime =
  year :: nat
  month :: nat
  day :: nat
  hour :: nat
  minute :: nat
  second :: nat
  microsecond :: nat

text \<open>The dictionary \<open>analysis_result\<close> built by \<open>run_analysis\<close>, one field per key.\<close>

record analysis_result =
  ticker :: string
  trade_date :: string
  final_state :: "string \<rightharpoonup> pyval"
  decision :: pyval
  timestamp :: datetime
  selected_analysts :: "string list"

text \<open>
  \<open>st.session_state\<close> before \<open>initialize_session_state\<close> has run: each of the four keys may
  be missing (\<open>None\<close>). A fresh browser session has none of them.
\<close>

record 'c session_state =
  ss_analysis_history :: "analysis_result list option"
  ss_current_analysis :: "analysis_result option option"
  ss_analysis_running :: "bool option"
  ss_config :: "'c option"

definition fresh_session :: "'c session_state" where
  "fresh_session =
     \<lparr>ss_analysis_history = None, ss_current_analysis = None,
      ss_analysis_running = None, ss_config = None\<rparr>"

text \<open>The session state once all four keys are present; the configuration is opaque.\<close>

record 'c session =
  analysis_history :: "analysis_result list"
  current_analysis :: "analysis_result option"
  analysis_running :: bool
  config :: 'c

text \<open>
  \<open>initialize_session_state\<close>: a key that is missing gets its default, a key that is there
  keeps its value. \<open>default_config\<close> is the framework's \<open>DEFAULT_CONFIG\<close>.
\<close>

definition initialize_session_state :: "'c \<Rightarrow> 'c session_state \<Rightarrow> 'c session" where
  "initialize_session_state default_config ss =
     \<lparr>analysis_history = (case ss_analysis_history ss of None \<Rightarrow> [] | Some h \<Rightarrow> h),
      current_analysis = (case ss_current_analysis ss of None \<Rightarrow> None | Some c \<Rightarrow> c),
      analysis_running = (case ss_analysis_running ss of None \<Rightarrow> False | Some r \<Rightarrow> r),
      config = (case ss_config ss of None \<Rightarrow> default_config | Some c \<Rightarrow> c)\<rparr>"

text \<open>What the next script run of the same browser session finds in \<open>st.session_state\<close>.\<close>

definition stored :: "'c session \<Rightarrow> 'c session_state" where
  "stored s =
     \<lparr>ss_analysis_history = Some (analysis_history s),
      ss_current_analysis = Some (current_analysis s),
      ss_analysis_running = Some (analysis_running s),
      ss_config = Some (config s)\<rparr>"

section \<open>The external framework\<close>

text \<open>
  The framework is not part of the repository. It is a parameter: a constructor
  \<open>TradingAgentsGraph(selected_analysts, debug, config)\<close> and a method
  \<open>propagate(ticker, trade_date)\<close>, each of which either raises an exception or returns.
  Of an exception the code reads \<open>str(e)\<close> and the formatted traceback.
\<close>

record exn =
  message :: string
  traceback :: string

record ('c, 'g) framework =
  TradingAgentsGraph :: "string list \<Rightarrow> bool \<Rightarrow> 'c \<Rightarrow> exn + 'g"
  propagate :: "'g \<Rightarrow> string \<Rightarrow> string \<Rightarrow> exn + ((string \<rightharpoonup> pyval) \<times> pyval)"

text \<open>The external call as a whole: construct the graph, then propagate.\<close>

definition external_call ::
  "('c, 'g) framework \<Rightarrow> string list \<Rightarrow> 'c \<Rightarrow> string \<Rightarrow> string \<Rightarrow>
     exn + ((string \<rightharpoonup> pyval) \<times> pyval)" where
  "external_call fw analysts cfg tkr date =
     (case TradingAgentsGraph fw analysts False cfg of
        Inl e \<Rightarrow> Inl e
      | Inr ta \<Rightarrow> propagate fw ta tkr date)"

section \<open>The analysis invoker of the dashboard\<close>

text \<open>What the script writes to the page while it handles a submission.\<close>

datatype ui =
    Error string
  | Success string
  | ProgressBar nat
  | StatusText string
  | Rerun

text \<open>
  \<open>run_analysis\<close> returns the bundle (or \<open>None\<close>), the session state it leaves, and what it
  wrote to the page. \<open>now\<close> is the value of \<open>datetime.datetime.now()\<close>. Every exception
  raised inside the \<open>try\<close> block ends in the \<open>except Exception\<close> handler.
\<close>

definition analysis_failed :: "exn \<Rightarrow> ui list" where
  "analysis_failed e =
     [Error (''Analysis failed: '' @ message e), Error (''Details: '' @ traceback e)]"

definition run_analysis ::
  "('c, 'g) framework \<Rightarrow> datetime \<Rightarrow> string \<Rightarrow> string \<Rightarrow> string list \<Rightarrow> 'c session \<Rightarrow>
     analysis_result option \<times> 'c session \<times> ui list" where
  "run_analysis fw now tkr date analysts s =
     (if tkr = [] \<or> date = [] then
        (None, s, [Error ''Please provide both ticker symbol and trade date''])
      else
        (let out1 = [ProgressBar 0, StatusText ''Initializing TradingAgents...'', ProgressBar 10]
         in case TradingAgentsGraph fw analysts False (config s) of
              Inl e \<Rightarrow> (None, s, out1 @ analysis_failed e)
            | Inr ta \<Rightarrow>
               (let out2 = out1 @ [ProgressBar 20, StatusText ''Running analysis...'']
                in case propagate fw ta tkr date of
                     Inl e \<Rightarrow> (None, s, out2 @ analysis_failed e)
                   | Inr (fs, dec) \<Rightarrow>
                      (let analysis_result =
                             \<lparr>ticker = tkr, trade_date = date, final_state = fs,
                              decision = dec, timestamp = now, selected_analysts = analysts\<rparr>;
                           s1 = s\<lparr>analysis_history := analysis_history s @ [analysis_result]\<rparr>;
                           s2 = s1\<lparr>current_analysis := Some analysis_result\<rparr>
                       in (Some analysis_result, s2,
                           out2 @ [ProgressBar 100, StatusText ''Analysis completed!''])))))"

text \<open>
  The \<open>if submitted:\<close> block of \<open>main\<close>: set the flag, call \<open>run_analysis\<close>, clear the flag;
  a bundle is reported as success and the script is rerun. The flag is written twice and
  read nowhere in the repository.
\<close>

definition main_submitted ::
  "('c, 'g) framework \<Rightarrow> datetime \<Rightarrow> string \<Rightarrow> string \<Rightarrow> string list \<Rightarrow> 'c session \<Rightarrow>
     analysis_result option \<times> 'c session \<times> ui list" where
  "main_submitted fw now tkr date analysts s =
     (let s1 = s\<lparr>analysis_running := True\<rparr>;
          (result, s2, out) = run_analysis fw now tkr date analysts s1;
          s3 = s2\<lparr>analysis_running := False\<rparr>
      in case result of
           None \<Rightarrow> (None, s3, out)
         | Some r \<Rightarrow>
            (Some r, s3, out @ [Success (''Analysis completed for '' @ tkr @ ''!''), Rerun]))"

text \<open>
  \<open>display_analysis_history\<close>: nothing happens on an empty history; otherwise the button
  "View Selected Analysis" promotes the selected history entry to current. The select box
  offers \<open>range(len(history))\<close>; an index outside it would raise \<open>IndexError\<close>.
\<close>

definition display_analysis_history ::
  "nat \<Rightarrow> bool \<Rightarrow> 'c session \<Rightarrow> py_error + 'c session" where
  "display_analysis_history selected_analysis view_clicked s =
     (if analysis_history s = [] then Inr s
      else if view_clicked then
        (if selected_analysis < length (analysis_history s)
         then Inr (s\<lparr>current_analysis := Some (analysis_history s ! selected_analysis)\<rparr>)
         else Inl IndexError)
      else Inr s)"

text \<open>A small framework to run the model on: it fails for the ticker \<open>FAIL\<close>.\<close>

definition demo_framework :: "(unit, unit) framework" where
  "demo_framework =
     \<lparr>TradingAgentsGraph = (\<lambda>analysts debug cfg. Inr ()),
      propagate = (\<lambda>ta tkr date.
         if tkr = ''FAIL'' then Inl \<lparr>message = ''no data'', traceback = ''Traceback (most recent call last)''\<rparr>
         else Inr ([''market_report'' \<mapsto> PStr ''Uptrend''], PStr ''BUY''))\<rparr>"

definition demo_now :: datetime where
  "demo_now = \<lparr>year = 2024, month = 11, day = 18, hour = 9, minute = 30, second = 0,
               microsecond = 0\<rparr>"

definition demo_session :: "unit session" where
  "demo_session = \<lparr>analysis_history = [], current_analysis = None,
                   analysis_running = False, config = ()\<rparr>"

section \<open>The invoker of the chat-style demo\<close>

text \<open>
  A section of the demo's output: \<open>## title\<close>, a line break, the text, and what follows
  the text. \<open>section_of\<close> is one \<open>if 'k' in final_state and final_state['k']:\<close> statement.
\<close>

datatype md_section = Section string pyval string


fun section_text :: "md_section \<Rightarrow> string" where
  "section_text (Section t v tr) = ''## '' @ t @ [LF] @ py_str v @ tr"

definition section_of :: "(string \<rightharpoonup> pyval) \<Rightarrow> string \<Rightarrow> string \<Rightarrow> string \<Rightarrow> md_section list" where
  "section_of fs k t tr =
     (case fs k of None \<Rightarrow> [] | Some v \<Rightarrow> if truthy v then [Section t v tr] else [])"

definition reports :: "(string \<rightharpoonup> pyval) \<Rightarrow> md_section list" where
  "reports fs =
     section_of fs ''market_report'' ''Market Analysis'' [LF] @
     section_of fs ''sentiment_report'' ''Sentiment Analysis'' [LF] @
     section_of fs ''news_report'' ''News Analysis'' [LF] @
     section_of fs ''fundamentals_report'' ''Fundamentals Analysis'' [LF]"

definition trading_sections :: "(string \<rightharpoonup> pyval) \<Rightarrow> md_section list" where
  "trading_sections fs =
     section_of fs ''investment_plan'' ''Research Team Decision'' [LF, LF] @
     section_of fs ''trader_investment_plan'' ''Trading Plan'' [LF, LF] @
     section_of fs ''final_trade_decision'' ''Final Trade Decision'' [LF]"

text \<open>\<open>strftime('%Y-%m-%d %H:%M:%S')\<close>, for a year of four digits, and the summary text.\<close>

definition strftime :: "datetime \<Rightarrow> string" where
  "strftime t =
     zpad 4 (year t) @ ''-'' @ zpad 2 (month t) @ ''-'' @ zpad 2 (day t) @ '' '' @
     zpad 2 (hour t) @ '':'' @ zpad 2 (minute t) @ '':'' @ zpad 2 (second t)"

definition summary :: "string \<Rightarrow> pyval \<Rightarrow> string \<Rightarrow> datetime \<Rightarrow> string" where
  "summary tkr dec date_str now =
     [LF] @ ''## Final Decision for '' @ tkr @ [LF] @
     ''**Decision:** '' @ py_str dec @ [LF] @
     ''**Date:** '' @ date_str @ [LF] @
     ''**Analysis Time:** '' @ strftime now @ [LF] @ ''        ''"

text \<open>
  \<open>run_trading_analysis\<close> returns three texts. \<open>available\<close> is \<open>TRADING_AGENTS_AVAILABLE\<close>,
  \<open>cfg\<close> the copy of \<open>DEFAULT_CONFIG\<close> with the three settings overwritten.
\<close>

definition run_trading_analysis ::
  "bool \<Rightarrow> ('c, 'g) framework \<Rightarrow> 'c \<Rightarrow> datetime \<Rightarrow> string \<Rightarrow> string \<Rightarrow> string list \<Rightarrow>
     string \<times> string \<times> string" where
  "run_trading_analysis available fw cfg now tkr date_str analysts =
     (if \<not> available then (''TradingAgents framework not available'', [], [])
      else if tkr = [] then (''Please enter a stock ticker'', [], [])
      else
        (case TradingAgentsGraph fw analysts False cfg of
           Inl e \<Rightarrow> (''Analysis failed: '' @ message e, [], [])
         | Inr ta \<Rightarrow>
            (case propagate fw ta tkr date_str of
               Inl e \<Rightarrow> (''Analysis failed: '' @ message e, [], [])
             | Inr (fs, dec) \<Rightarrow>
                (summary tkr dec date_str now,
                 join [LF] (map section_text (reports fs)),
                 concat (map section_text (trading_sections fs))))))"

section \<open>The result renderer of the dashboard\<close>

text \<open>
  What \<open>display_analysis_results\<close> puts on the page. \<open>Heading t\<close> is \<open>st.markdown("### t")\<close>
  with a literal title, \<open>Markdown v\<close> is \<open>st.markdown(v)\<close> for a value of the bundle.
\<close>

datatype element =
    Subheader string
  | Heading string
  | Markdown pyval
  | Expander string bool "element list"
  | Metric string string "string option"
  | Columns "element list list"
  | DecisionBox string string

text \<open>The decision in the summary tab: shown when truthy, coloured by two substring tests.\<close>

definition decision_color :: "pyval \<Rightarrow> string" where
  "decision_color d =
     (if sublist ''buy'' (lower (py_str d)) then ''green''
      else if sublist ''sell'' (lower (py_str d)) then ''red''
      else ''gray'')"

definition display_decision :: "pyval \<Rightarrow> element list" where
  "display_decision d =
     (if truthy d
      then [Heading ''Final Trading Decision'', DecisionBox (decision_color d) (py_str d)]
      else [])"

definition expander_of :: "(string \<rightharpoonup> pyval) \<Rightarrow> string \<Rightarrow> string \<Rightarrow> element list" where
  "expander_of fs k t =
     (case fs k of None \<Rightarrow> []
      | Some v \<Rightarrow> if truthy v then [Expander t True [Markdown v]] else [])"

definition heading_of :: "(string \<rightharpoonup> pyval) \<Rightarrow> string \<Rightarrow> string \<Rightarrow> element list" where
  "heading_of fs k t =
     (case fs k of None \<Rightarrow> []
      | Some v \<Rightarrow> if truthy v then [Heading t, Markdown v] else [])"

definition analyst_reports_tab :: "(string \<rightharpoonup> pyval) \<Rightarrow> element list" where
  "analyst_reports_tab fs =
     [Subheader ''Analyst Team Reports''] @
     expander_of fs ''market_report'' ''Market Analysis'' @
     expander_of fs ''sentiment_report'' ''Social Sentiment Analysis'' @
     expander_of fs ''news_report'' ''News Analysis'' @
     expander_of fs ''fundamentals_report'' ''Fundamentals Analysis''"

text \<open>
  The debate history is tested for presence only, and then iterated: one expander per
  round, numbered from 1.
\<close>

definition debate_rounds :: "string list \<Rightarrow> element list" where
  "debate_rounds ds =
     map (\<lambda>(round_num, debate).
            Expander (''Debate Round '' @ str_nat round_num) False [Markdown (PStr debate)])
         (zip [1 ..< Suc (length ds)] ds)"

definition research_debate_tab :: "(string \<rightharpoonup> pyval) \<Rightarrow> py_error + element list" where
  "research_debate_tab fs =
     (let top = [Subheader ''Research Team Analysis''] @
                heading_of fs ''investment_plan'' ''Research Team Recommendation''
      in case fs ''debate_history'' of
           None \<Rightarrow> Inr top
         | Some h \<Rightarrow>
            (case py_iter h of
               Inl e \<Rightarrow> Inl e
             | Inr ds \<Rightarrow> Inr (top @ [Heading ''Debate History''] @ debate_rounds ds)))"

definition trading_decision_tab :: "(string \<rightharpoonup> pyval) \<Rightarrow> element list" where
  "trading_decision_tab fs =
     [Subheader ''Trading Team Decision''] @
     heading_of fs ''trader_investment_plan'' ''Trader Analysis'' @
     heading_of fs ''final_trade_decision'' ''Final Trade Decision''"

definition risk_assessment_tab :: "(string \<rightharpoonup> pyval) \<Rightarrow> element list" where
  "risk_assessment_tab fs =
     [Subheader ''Risk Management Assessment''] @
     heading_of fs ''risk_assessment'' ''Risk Analysis'' @
     [Heading ''Risk Metrics'',
      Columns [[Metric ''Market Risk'' ''Medium'' (Some ''0.2'')],
               [Metric ''Volatility Risk'' ''High'' (Some ''-0.1'')],
               [Metric ''Liquidity Risk'' ''Low'' (Some ''0.0'')]]]"

text \<open>
  The four tabs that show the report kinds, in page order. The summary, chart and export
  tabs read the market-data source, the chart library and the configuration; of the
  summary tab only \<open>display_decision\<close> is modelled. An exception in a tab ends the run.
\<close>

definition display_analysis_results ::
  "analysis_result option \<Rightarrow> py_error + (string \<times> element list) list" where
  "display_analysis_results analysis_result =
     (case analysis_result of
        None \<Rightarrow> Inr []
      | Some r \<Rightarrow>
         (case research_debate_tab (final_state r) of
            Inl e \<Rightarrow> Inl e
          | Inr debate \<Rightarrow>
             Inr [(''Analyst Reports'', analyst_reports_tab (final_state r)),
                  (''Research Debate'', debate),
                  (''Trading Decision'', trading_decision_tab (final_state r)),
                  (''Risk Assessment'', risk_assessment_tab (final_state r))]))"




section \<open>One run of the dashboard script\<close>

text \<open>
  One run of the script \<open>main\<close>, as far as it touches the session state. The record holds
  what the widgets return to this run: the configuration update of the sidebar, the
  selected analysts, the ticker (after \<open>.upper()\<close>), \<open>str(trade_date)\<close>, the two buttons
  and the select box of the history. The run ends at \<open>st.rerun()\<close> after a successful
  submission, and at an exception that nothing catches; what it has written to the session
  state by then stays. The result is the session state left, what the submit block wrote
  to the page, and the exception that ended the run, if any. Of the page between the
  submit block and the history only \<open>display_analysis_results\<close> is in the model.
\<close>

record 'c widgets =
  w_config :: "'c \<Rightarrow> 'c"
  w_selected_analysts :: "string list"
  w_ticker :: string
  w_trade_date :: string
  w_submitted :: bool
  w_selected_analysis :: nat
  w_view_clicked :: bool

definition main ::
  "('c, 'g) framework \<Rightarrow> 'c \<Rightarrow> datetime \<Rightarrow> 'c widgets \<Rightarrow> 'c session_state \<Rightarrow>
     'c session \<times> ui list \<times> py_error option" where
  "main fw default_config now w ss =
     (let s0 = initialize_session_state default_config ss;
          s1 = s0\<lparr>config := w_config w (config s0)\<rparr>;
          (result, s2, out) =
             (if w_submitted w
              then main_submitted fw now (w_ticker w) (w_trade_date w) (w_selected_analysts w) s1
              else (None, s1, []))
      in case result of
           Some r \<Rightarrow> (s2, out, None)
         | None \<Rightarrow>
            (case (case current_analysis s2 of
                     None \<Rightarrow> Inr []
                   | Some r \<Rightarrow> display_analysis_results (Some r)) of
               Inl e \<Rightarrow> (s2, out, Some e)
             | Inr page \<Rightarrow>
                if analysis_history s2 = [] then (s2, out, None)
                else
                  (case display_analysis_history (w_selected_analysis w) (w_view_clicked w) s2 of
                     Inl e \<Rightarrow> (s2, out, Some e)
                   | Inr s3 \<Rightarrow> (s3, out, None))))"

text \<open>The session states a browser session can be in after some number of script runs.\<close>

inductive reachable :: "('c, 'g) framework \<Rightarrow> 'c \<Rightarrow> 'c session \<Rightarrow> bool"
  for fw :: "('c, 'g) framework" and default_config :: 'c where
  first_run: "reachable fw default_config (fst (main fw default_config now w fresh_session))"
| next_run: "reachable fw default_config s \<Longrightarrow>
             reachable fw default_config (fst (main fw default_config now w (stored s)))"

text \<open>The current bundle, when there is one, is an entry of the history.\<close>

definition current_in_history :: "'c session \<Rightarrow> bool" where
  "current_in_history s =
     (case current_analysis s of None \<Rightarrow> True | Some r \<Rightarrow> r \<in> set (analysis_history s))"



text \<open>
  What the specification calls a case-insensitive substring: some substring of the text is
  the word up to case.
\<close>

definition contains_ignoring_case :: "string \<Rightarrow> string \<Rightarrow> bool" where
  "contains_ignoring_case word s = (\<exists>w. sublist w s \<and> lower w = word)"

section \<open>The launcher\<close>

text \<open>
  The launcher \<open>run_streamlit.py\<close> reads its surroundings and acts on the process: it
  prints, it starts the server with \<open>subprocess.run\<close>, it exits. The surroundings are a
  record: the working directory and the path of the application in it, whether that file
  exists, which modules can be imported, the environment after \<open>load_dotenv()\<close>, the
  interpreter, and how the server process ends.
\<close>

datatype run_outcome = Completed | KeyboardInterrupt | CalledProcessError string | FileNotFoundError

datatype action = Print string | Run "string list" | SysExit nat

record launcher_env =
  current_dir :: string
  streamlit_app_path :: string
  app_exists :: bool
  importable :: "string \<Rightarrow> bool"
  getenv :: "string \<rightharpoonup> string"
  executable :: string
  server_outcome :: run_outcome

definition required_packages :: "string list" where
  "required_packages = [''streamlit'', ''plotly'', ''pandas'', ''yfinance'', ''python-dotenv'']"

definition check_requirements :: "launcher_env \<Rightarrow> bool \<times> action list" where
  "check_requirements env =
     (let missing_packages =
            filter (\<lambda>package.
                      \<not> importable env (map (\<lambda>c. if c = CHR ''-'' then CHR ''_'' else c) package))
                   required_packages
      in if missing_packages \<noteq> [] then
           (False,
            [Print (''Missing required packages: '' @ join '', '' missing_packages),
             Print ''Please install them using:'',
             Print (''pip install '' @ join '' '' missing_packages)])
         else (True, []))"

definition required_env_vars :: "string list" where
  "required_env_vars = [''OPENAI_API_KEY'', ''ALPHA_VANTAGE_API_KEY'']"

definition check_env_setup :: "launcher_env \<Rightarrow> bool \<times> action list" where
  "check_env_setup env =
     (let missing_vars =
            filter (\<lambda>var. case getenv env var of None \<Rightarrow> True | Some v \<Rightarrow> v = [])
                   required_env_vars
      in if missing_vars \<noteq> [] then
           (False,
            [Print (''Missing environment variables: '' @ join '', '' missing_vars),
             Print ''Please set them in your .env file or as environment variables.'',
             Print ''You can also enter them in the Streamlit UI sidebar.''])
         else (True, []))"

definition streamlit_command :: "launcher_env \<Rightarrow> string list" where
  "streamlit_command env =
     [executable env, ''-m'', ''streamlit'', ''run'', streamlit_app_path env,
      ''--server.address'', ''localhost'', ''--server.port'', ''8501'']"

definition start_streamlit :: "launcher_env \<Rightarrow> action list" where
  "start_streamlit env =
     [Print (LF # ''Starting Streamlit application...''),
      Print ''The application will open in your default web browser.'',
      Print (''If it doesn'' @ [SQUOTE] @ ''t open automatically, go to: http://localhost:8501''),
      Print (LF # replicate 50 (CHR ''='')),
      Run (streamlit_command env)] @
     (case server_outcome env of
        Completed \<Rightarrow> []
      | KeyboardInterrupt \<Rightarrow> [Print (LF # ''Application stopped by user'')]
      | CalledProcessError e \<Rightarrow> [Print (''Error running Streamlit: '' @ e), SysExit 1]
      | FileNotFoundError \<Rightarrow>
          [Print ''Streamlit not found. Please install it using: pip install streamlit'',
           SysExit 1])"

text \<open>\<open>main\<close> of the launcher; \<open>sys.exit\<close> ends the trace.\<close>

definition run_streamlit_main :: "launcher_env \<Rightarrow> action list" where
  "run_streamlit_main env =
     [Print ''TradingAgents Streamlit Application'', Print (replicate 50 (CHR ''=''))] @
     (if \<not> app_exists env then
        [Print (''streamlit_app.py not found in '' @ current_dir env),
         Print ''Please run this script from the TradingAgents project directory.'',
         SysExit 1]
      else
        [Print (''Running from: '' @ current_dir env), Print ''Checking requirements...''] @
        (case check_requirements env of
           (False, printed) \<Rightarrow> printed @ [SysExit 1]
         | (True, printed) \<Rightarrow>
             printed @
             [Print ''Requirements check passed'', Print ''Checking environment setup...''] @
             (case check_env_setup env of
                (env_ok, printed2) \<Rightarrow>
                  printed2 @
                  [Print (if env_ok then ''Environment variables configured''
                          else ''Some environment variables missing (you can set them in the UI)'')]) @
             start_streamlit env))"

text \<open>What the launcher has printed when it comes to the package check.\<close>

definition launcher_prelude :: "launcher_env \<Rightarrow> action list" where
  "launcher_prelude env =
     [Print ''TradingAgents Streamlit Application'', Print (replicate 50 (CHR ''='')),
      Print (''Running from: '' @ current_dir env), Print ''Checking requirements...'']"

definition demo_env :: launcher_env where
  "demo_env =
     \<lparr>current_dir = ''/app'', streamlit_app_path = ''/app/streamlit_app.py'', app_exists = True,
      importable = (\<lambda>m. True), getenv = Map.empty, executable = ''/usr/bin/python3'',
      server_outcome = Completed\<rparr>"

section \<open>The presentation formatter\<close>

text \<open>
  A Python \<open>float\<close> is a sign, a mantissa and a binary exponent, or an infinity, or not a
  number: \<open>Finite sg m e\<close> is the number \<open>m * 2^e\<close>, negative when \<open>sg\<close> holds. Every double is
  of this form. The format \<open>.2f\<close> prints the decimal numeral with two fractional digits that
  is nearest to the exact value, a tie going to the even last digit, and keeps the sign.
\<close>

datatype pyfloat = Finite bool nat int | Infinity bool | NaN

definition magnitude :: "nat \<Rightarrow> int \<Rightarrow> real" where
  "magnitude m e = (if 0 \<le> e then real m * 2 ^ nat e else real m / 2 ^ nat (- e))"

text \<open>The integer nearest to \<open>n / d\<close>, ties to even.\<close>

definition round_half_even :: "nat \<Rightarrow> nat \<Rightarrow> nat" where
  "round_half_even n d =
     (let q = n div d; r = n mod d
      in if d < 2 * r \<or> (2 * r = d \<and> odd q) then q + 1 else q)"

text \<open>The magnitude in hundredths, rounded: \<open>m * 2^e * 100\<close> to the nearest integer.\<close>

definition hundredths :: "nat \<Rightarrow> int \<Rightarrow> nat" where
  "hundredths m e =
     (if 0 \<le> e then m * 100 * 2 ^ nat e else round_half_even (m * 100) (2 ^ nat (- e)))"

definition fixed2 :: "nat \<Rightarrow> string" where
  "fixed2 q = str_nat (q div 100) @ ''.'' @ zpad 2 (q mod 100)"

fun format_percentage :: "pyfloat \<Rightarrow> string" where
  "format_percentage (Finite sg m e) =
     (if sg then ''-'' else []) @ fixed2 (hundredths m e) @ ''%''"
| "format_percentage (Infinity sg) = (if sg then ''-inf%'' else ''inf%'')"
| "format_percentage NaN = ''nan%''"

text \<open>What the specification calls rounding half-up, for comparison.\<close>

definition round_half_up :: "nat \<Rightarrow> nat \<Rightarrow> nat" where
  "round_half_up n d = (let q = n div d; r = n mod d in if d \<le> 2 * r then q + 1 else q)"

text \<open>The double written \<open>12.345\<close>: \<open>6949617174986097 / 2^49\<close>, a little above 12.345.\<close>

definition float_12_345 :: pyfloat where
  "float_12_345 = Finite False 6949617174986097 (- 49)"

definition demo_env_no_plotly :: launcher_env where
  "demo_env_no_plotly = demo_env\<lparr>importable := (\<lambda>m. m \<noteq> ''plotly'')\<rparr>"


definition demo_widgets :: "unit widgets" where
  "demo_widgets =
     \<lparr>w_config = (\<lambda>c. c), w_selected_analysts = [''market''], w_ticker = ''NVDA'',
      w_trade_date = ''2024-11-17'', w_submitted = True, w_selected_analysis = 0,
      w_view_clicked = False\<rparr>"

definition demo_result :: analysis_result where
  "demo_result =
     \<lparr>ticker = ''NVDA'', trade_date = ''2024-11-17'',
      final_state = [''market_report'' \<mapsto> PStr ''Uptrend''], decision = PStr ''BUY'',
      timestamp = demo_now, selected_analysts = [''market'']\<rparr>"

definition demo_session_after :: "unit session" where
  "demo_session_after =
     \<lparr>analysis_history = [demo_result], current_analysis = Some demo_result,
      analysis_running = False, config = ()\<rparr>"

section \<open>The export of a bundle as JSON\<close>


subsection \<open>\<open>json.dumps(obj, indent=2)\<close>\<close>






subsection \<open>\<open>json.loads(s)\<close>\<close>










subsection \<open>\<open>export_analysis_to_json\<close>\<close>









section \<open>Results about the invoker\<close>

lemma run_analysis_invalid:
  "tkr = [] \<or> date = [] \<Longrightarrow>
   run_analysis fw now tkr date analysts s =
     (None, s, [Error ''Please provide both ticker symbol and trade date''])"
  by (simp add: run_analysis_def)


lemma run_analysis_returns:
  assumes "tkr \<noteq> []" "date \<noteq> []"
    and "external_call fw analysts (config s) tkr date = Inr (fs, dec)"
  shows "\<exists>out. run_analysis fw now tkr date analysts s =
           (Some \<lparr>ticker = tkr, trade_date = date, final_state = fs,
                   decision = dec, timestamp = now, selected_analysts = analysts\<rparr>,
            s\<lparr>analysis_history := analysis_history s @
                    [\<lparr>ticker = tkr, trade_date = date, final_state = fs,
                      decision = dec, timestamp = now, selected_analysts = analysts\<rparr>],
               current_analysis :=
                    Some \<lparr>ticker = tkr, trade_date = date, final_state = fs,
                          decision = dec, timestamp = now, selected_analysts = analysts\<rparr>\<rparr>,
            out)"
  using assms
  by (auto simp: run_analysis_def external_call_def Let_def split: sum.splits)

lemma run_analysis_cases:
  "(\<exists>out. run_analysis fw now tkr date analysts s = (None, s, out)) \<or>
   (\<exists>r out. run_analysis fw now tkr date analysts s =
     (Some r, s\<lparr>analysis_history := analysis_history s @ [r], current_analysis := Some r\<rparr>, out))"
  by (auto simp: run_analysis_def Let_def split: sum.splits)





text \<open>
  Claim C5. After a successful invocation (ticker and date not empty, the external call
  returns), the submit block has returned the bundle built from the call, the history is
  the old history with that bundle appended, so it is longer by exactly one and ends in
  the bundle, the bundle is current, and the running flag is false.
\<close>

theorem successful_invocation_appends:
  assumes "tkr \<noteq> []" and "date \<noteq> []"
    and "external_call fw analysts (config s) tkr date = Inr (fs, dec)"
  shows "\<exists>r s' out. main_submitted fw now tkr date analysts s = (Some r, s', out) \<and>
           r = \<lparr>ticker = tkr, trade_date = date, final_state = fs,
                decision = dec, timestamp = now, selected_analysts = analysts\<rparr> \<and>
           analysis_history s' = analysis_history s @ [r] \<and>
           length (analysis_history s') = length (analysis_history s) + 1 \<and>
           last (analysis_history s') = r \<and>
           current_analysis s' = Some r \<and>
           \<not> analysis_running s' \<and>
           config s' = config s"
proof -
  from run_analysis_returns [of tkr date fw analysts "s\<lparr>analysis_running := True\<rparr>" fs dec now] assms
  obtain out where "run_analysis fw now tkr date analysts (s\<lparr>analysis_running := True\<rparr>) =
           (Some \<lparr>ticker = tkr, trade_date = date, final_state = fs,
                   decision = dec, timestamp = now, selected_analysts = analysts\<rparr>,
            s\<lparr>analysis_running := True,
              analysis_history := analysis_history s @
                    [\<lparr>ticker = tkr, trade_date = date, final_state = fs,
                      decision = dec, timestamp = now, selected_analysts = analysts\<rparr>],
               current_analysis :=
                    Some \<lparr>ticker = tkr, trade_date = date, final_state = fs,
                          decision = dec, timestamp = now, selected_analysts = analysts\<rparr>\<rparr>,
            out)"
    by auto
  then show ?thesis by (simp add: main_submitted_def)
qed

lemma demo_call_ok:
  "external_call demo_framework [''market''] () ''NVDA'' ''2024-11-17'' =
     Inr ([''market_report'' \<mapsto> PStr ''Uptrend''], PStr ''BUY'')"
  by (simp add: external_call_def demo_framework_def)


lemma demo_first_run:
  "fst (main demo_framework () demo_now demo_widgets fresh_session) = demo_session_after"
  by (simp add: main_def main_submitted_def run_analysis_def demo_framework_def Let_def
      demo_widgets_def demo_result_def demo_session_after_def initialize_session_state_def
      fresh_session_def)

theorem successful_invocation_appends_witness:
  "\<exists>s' out. main_submitted demo_framework demo_now ''NVDA'' ''2024-11-17'' [''market'']
               demo_session = (Some demo_result, s', out) \<and>
     analysis_history s' = [demo_result] \<and> current_analysis s' = Some demo_result \<and>
     \<not> analysis_running s'"
proof -
  have c: "external_call demo_framework [''market''] (config demo_session) ''NVDA'' ''2024-11-17'' =
     Inr ([''market_report'' \<mapsto> PStr ''Uptrend''], PStr ''BUY'')"
    by (simp add: demo_call_ok)
  have h: "analysis_history demo_session = []" by (simp add: demo_session_def)
  from successful_invocation_appends [of "''NVDA''" "''2024-11-17''", OF _ _ c, of demo_now]
  show ?thesis by (auto simp: demo_result_def h)
qed


lemma initialize_stored: "initialize_session_state d (stored s) = s"
  by (simp add: initialize_session_state_def stored_def)

lemma current_in_history_init:
  "current_in_history (initialize_session_state d fresh_session)"
  by (simp add: current_in_history_def initialize_session_state_def fresh_session_def)

lemma current_in_history_flag:
  "current_in_history (s\<lparr>analysis_running := b\<rparr>) = current_in_history s"
  by (simp add: current_in_history_def split: option.splits)

lemma current_in_history_config:
  "current_in_history (s\<lparr>config := c\<rparr>) = current_in_history s"
  by (simp add: current_in_history_def split: option.splits)

lemma current_in_history_run_analysis:
  assumes "current_in_history s"
  shows "current_in_history (fst (snd (run_analysis fw now tkr date analysts s)))"
  using assms run_analysis_cases [of fw now tkr date analysts s]
  by (auto simp: current_in_history_def split: option.splits)

lemma current_in_history_main_submitted:
  assumes "current_in_history s"
  shows "current_in_history (fst (snd (main_submitted fw now tkr date analysts s)))"
proof -
  have "current_in_history (fst (snd (run_analysis fw now tkr date analysts
          (s\<lparr>analysis_running := True\<rparr>))))"
    using assms by (intro current_in_history_run_analysis) (simp add: current_in_history_flag)
  then show ?thesis
    by (auto simp: main_submitted_def Let_def current_in_history_flag
        split: prod.splits option.splits)
qed

lemma current_in_history_view:
  assumes "current_in_history s" and "display_analysis_history i v s = Inr s'"
  shows "current_in_history s'"
  using assms
  by (auto simp: display_analysis_history_def current_in_history_def split: if_splits)

lemma main_state:
  "\<exists>s2. (s2 = (initialize_session_state d ss)
                  \<lparr>config := w_config w (config (initialize_session_state d ss))\<rparr> \<or>
            s2 = fst (snd (main_submitted fw now (w_ticker w) (w_trade_date w)
                  (w_selected_analysts w)
                  ((initialize_session_state d ss)
                     \<lparr>config := w_config w (config (initialize_session_state d ss))\<rparr>)))) \<and>
         (fst (main fw d now w ss) = s2 \<or>
          display_analysis_history (w_selected_analysis w) (w_view_clicked w) s2 =
            Inr (fst (main fw d now w ss)))"
proof -
  let ?s1 = "(initialize_session_state d ss)
               \<lparr>config := w_config w (config (initialize_session_state d ss))\<rparr>"
  let ?m = "if w_submitted w
            then main_submitted fw now (w_ticker w) (w_trade_date w) (w_selected_analysts w) ?s1
            else (None, ?s1, [])"
  obtain result s2 out where m: "?m = (result, s2, out)" by (cases ?m)
  have a: "s2 = ?s1 \<or> s2 = fst (snd (main_submitted fw now (w_ticker w) (w_trade_date w)
                  (w_selected_analysts w) ?s1))"
    using m by (cases "w_submitted w") auto
  have e: "main fw d now w ss =
     (case result of
           Some r \<Rightarrow> (s2, out, None)
         | None \<Rightarrow>
            (case (case current_analysis s2 of
                     None \<Rightarrow> Inr []
                   | Some r \<Rightarrow> display_analysis_results (Some r)) of
               Inl e \<Rightarrow> (s2, out, Some e)
             | Inr page \<Rightarrow>
                if analysis_history s2 = [] then (s2, out, None)
                else
                  (case display_analysis_history (w_selected_analysis w) (w_view_clicked w) s2 of
                     Inl e \<Rightarrow> (s2, out, Some e)
                   | Inr s3 \<Rightarrow> (s3, out, None))))"
    unfolding main_def Let_def m by simp
  have b: "fst (main fw d now w ss) = s2 \<or>
          display_analysis_history (w_selected_analysis w) (w_view_clicked w) s2 =
            Inr (fst (main fw d now w ss))"
    unfolding e by (simp split: option.splits sum.splits)
  from a b show ?thesis by blast
qed

lemma current_in_history_main:
  assumes "current_in_history (initialize_session_state d ss)"
  shows "current_in_history (fst (main fw d now w ss))"
proof -
  let ?s1 = "(initialize_session_state d ss)
               \<lparr>config := w_config w (config (initialize_session_state d ss))\<rparr>"
  have s1: "current_in_history ?s1" using assms by (simp add: current_in_history_config)
  from main_state [where d = d and ss = ss and w = w and fw = fw and now = now] obtain s2 where
    a: "s2 = ?s1 \<or> s2 = fst (snd (main_submitted fw now (w_ticker w) (w_trade_date w)
                  (w_selected_analysts w) ?s1))"
    and b: "fst (main fw d now w ss) = s2 \<or>
          display_analysis_history (w_selected_analysis w) (w_view_clicked w) s2 =
            Inr (fst (main fw d now w ss))"
    by blast
  from a s1 have "current_in_history s2"
    using current_in_history_main_submitted [of ?s1] by auto
  with b show ?thesis using current_in_history_view by auto
qed

lemma reachable_current_in_history:
  "reachable fw d s \<Longrightarrow> current_in_history s"
proof (induction rule: reachable.induct)
  case (first_run now w)
  show ?case by (rule current_in_history_main [OF current_in_history_init])
next
  case (next_run s now w)
  then show ?case using current_in_history_main [of d "stored s"] by (simp add: initialize_stored)
qed

lemma demo_reachable: "reachable demo_framework () demo_session_after"
  using reachable.first_run [of demo_framework "()" demo_now demo_widgets]
  by (simp only: demo_first_run)

text \<open>
  Claim C10. The current bundle is absent or an entry of the history: this holds after
  initialization of a fresh session, \<open>run_analysis\<close> preserves it, the selection in the
  history view preserves it, and so it holds in every session state that script runs can
  reach.
\<close>

theorem current_is_absent_or_in_history:
  "current_in_history (initialize_session_state d fresh_session) \<and>
   (current_in_history s \<longrightarrow>
      current_in_history (fst (snd (run_analysis fw now tkr date analysts s)))) \<and>
   (current_in_history s \<and> display_analysis_history i v s = Inr s' \<longrightarrow>
      current_in_history s') \<and>
   (reachable fw' d s'' \<longrightarrow> current_in_history s'')"
proof (intro conjI impI)
  show "current_in_history (initialize_session_state d fresh_session)"
    by (rule current_in_history_init)
  show "current_in_history (fst (snd (run_analysis fw now tkr date analysts s)))"
    if "current_in_history s" using that by (rule current_in_history_run_analysis)
  show "current_in_history s'"
    if "current_in_history s \<and> display_analysis_history i v s = Inr s'"
    using that current_in_history_view by blast
  show "current_in_history s''" if "reachable fw' d s''"
    using that by (rule reachable_current_in_history)
qed

theorem current_is_absent_or_in_history_witness:
  "reachable demo_framework () demo_session_after \<and>
   current_in_history demo_session_after \<and>
   current_analysis demo_session_after = Some demo_result \<and>
   current_in_history (fst (snd (run_analysis demo_framework demo_now ''NVDA'' ''2024-11-18''
      [''news''] demo_session_after))) \<and>
   display_analysis_history 0 True demo_session_after = Inr demo_session_after"
proof -
  have r: "reachable demo_framework () demo_session_after" by (rule demo_reachable)
  have v: "display_analysis_history 0 True demo_session_after = Inr demo_session_after"
    by (simp add: display_analysis_history_def demo_session_after_def)
  from current_is_absent_or_in_history [of "()" demo_session_after demo_framework demo_now
      "''NVDA''" "''2024-11-18''" "[''news'']" 0 True demo_session_after demo_framework
      demo_session_after] r v
  show ?thesis by (simp add: demo_session_after_def)
qed







text \<open>
  Claim C7, as the code has it. With an empty ticker or an empty date the dashboard's
  \<open>run_analysis\<close> shows the input error and returns no bundle, whatever the framework would
  do, and leaves the session state, hence the history, as it was; the submit block then
  only clears the flag. The demo's \<open>run_trading_analysis\<close> with an empty ticker returns a
  message and two empty texts, again whatever the framework would do: the message says
  that the framework is not available when its import failed, and asks for a ticker otherwise.
\<close>

theorem empty_input_is_rejected:
  assumes "tkr = [] \<or> date = []"
  shows "run_analysis fw now tkr date analysts s =
           (None, s, [Error ''Please provide both ticker symbol and trade date'']) \<and>
         main_submitted fw now tkr date analysts s =
           (None, s\<lparr>analysis_running := False\<rparr>,
            [Error ''Please provide both ticker symbol and trade date'']) \<and>
         (tkr = [] \<longrightarrow>
            run_trading_analysis available fw' cfg now tkr date analysts =
              (if available then ''Please enter a stock ticker''
               else ''TradingAgents framework not available'', [], []))"
  using assms
  by (auto simp: main_submitted_def run_analysis_invalid run_trading_analysis_def)

theorem empty_input_is_rejected_witness:
  "main_submitted demo_framework demo_now [] ''2024-11-17'' [''market''] demo_session =
     (None, demo_session, [Error ''Please provide both ticker symbol and trade date'']) \<and>
   run_analysis demo_framework demo_now ''NVDA'' [] [''market''] demo_session =
     (None, demo_session, [Error ''Please provide both ticker symbol and trade date'']) \<and>
   run_trading_analysis True demo_framework () demo_now [] ''2024-11-17'' [''market''] =
     (''Please enter a stock ticker'', [], [])"
proof -
  have a: "([]::string) = [] \<or> ''2024-11-17'' = []" by simp
  have b: "''NVDA'' = [] \<or> ([]::string) = []" by simp
  from empty_input_is_rejected [OF a, of demo_framework demo_now "[''market'']" demo_session True
      demo_framework "()"]
    empty_input_is_rejected [OF b, of demo_framework demo_now "[''market'']" demo_session True
      demo_framework "()"]
  show ?thesis by (simp add: demo_session_def)
qed

text \<open>
  The claim C7 as stated fails for the demo: with a ticker and an empty date the framework is
  called and its reports are returned.
\<close>

theorem demo_analyses_empty_date:
  "run_trading_analysis True demo_framework () demo_now ''NVDA'' [] [''market''] =
     (summary ''NVDA'' (PStr ''BUY'') [] demo_now,
      ''## Market Analysis'' @ [LF] @ ''Uptrend'' @ [LF], [])"
  by (simp add: run_trading_analysis_def demo_framework_def reports_def trading_sections_def
      section_of_def)

section \<open>Results about the decision classifier\<close>

lemma sublist_map_iff:
  "sublist x (map f s) \<longleftrightarrow> (\<exists>w. sublist w s \<and> map f w = x)"
proof
  assume "sublist x (map f s)"
  then obtain ps ss where eq: "map f s = ps @ x @ ss" by (auto simp: sublist_def)
  let ?w = "take (length x) (drop (length ps) s)"
  have "s = take (length ps) s @ ?w @ drop (length x) (drop (length ps) s)"
    by (simp only: append_take_drop_id)
  then have "sublist ?w s" unfolding sublist_def by blast
  moreover have "map f ?w = take (length x) (drop (length ps) (map f s))"
    by (simp add: take_map drop_map)
  then have "map f ?w = x" by (simp add: eq)
  ultimately show "\<exists>w. sublist w s \<and> map f w = x" by blast
next
  assume "\<exists>w. sublist w s \<and> map f w = x"
  then obtain w ps ss where "s = ps @ w @ ss" "map f w = x" by (auto simp: sublist_def)
  then have "map f s = map f ps @ x @ map f ss" by simp
  then show "sublist x (map f s)" unfolding sublist_def by blast
qed

lemma contains_ignoring_case_code:
  "contains_ignoring_case word s = sublist word (lower s)"
  by (simp add: contains_ignoring_case_def lower_def sublist_map_iff)

text \<open>
  Claim C8. The colour of the decision box has three states, tested in this order: when the
  string form of the decision contains \<open>buy\<close> in any mix of cases it is green; when it does
  not but contains \<open>sell\<close> it is red; otherwise it is gray. The box is shown, with that
  colour, for every truthy decision. \<open>Strong Buy\<close> is green, \<open>SELL NOW\<close> is red and
  \<open>Hold\<close> is gray.
\<close>

theorem decision_color_tri_state:
  "(contains_ignoring_case ''buy'' (py_str d) \<longrightarrow> decision_color d = ''green'') \<and>
   (\<not> contains_ignoring_case ''buy'' (py_str d) \<and> contains_ignoring_case ''sell'' (py_str d) \<longrightarrow>
      decision_color d = ''red'') \<and>
   (\<not> contains_ignoring_case ''buy'' (py_str d) \<and> \<not> contains_ignoring_case ''sell'' (py_str d) \<longrightarrow>
      decision_color d = ''gray'') \<and>
   (truthy d \<longrightarrow>
      display_decision d =
        [Heading ''Final Trading Decision'', DecisionBox (decision_color d) (py_str d)]) \<and>
   decision_color (PStr ''Strong Buy'') = ''green'' \<and>
   decision_color (PStr ''SELL NOW'') = ''red'' \<and>
   decision_color (PStr ''Hold'') = ''gray''"
proof -
  have 1: "decision_color (PStr ''Strong Buy'') = ''green''" by code_simp
  have 2: "decision_color (PStr ''SELL NOW'') = ''red''" by code_simp
  have 3: "decision_color (PStr ''Hold'') = ''gray''" by code_simp
  show ?thesis
    using 1 2 3 by (simp add: contains_ignoring_case_code decision_color_def display_decision_def)
qed

theorem decision_color_tri_state_witness:
  "contains_ignoring_case ''sell'' (py_str (PStr ''SELL NOW'')) \<and>
   \<not> contains_ignoring_case ''buy'' (py_str (PStr ''SELL NOW'')) \<and>
   decision_color (PStr ''SELL NOW'') = ''red'' \<and>
   display_decision (PStr ''SELL NOW'') =
     [Heading ''Final Trading Decision'', DecisionBox ''red'' ''SELL NOW'']"
proof -
  have a: "contains_ignoring_case ''sell'' (py_str (PStr ''SELL NOW''))"
    unfolding contains_ignoring_case_code by code_simp
  have b: "\<not> contains_ignoring_case ''buy'' (py_str (PStr ''SELL NOW''))"
    unfolding contains_ignoring_case_code by code_simp
  from decision_color_tri_state [of "PStr ''SELL NOW''"] a b show ?thesis by simp
qed

section \<open>Results about the launcher\<close>

lemma check_requirements_prints:
  "a \<in> set (snd (check_requirements env)) \<Longrightarrow> \<exists>t. a = Print t"
  by (auto simp: check_requirements_def Let_def split: if_splits)

lemma check_env_setup_prints:
  "a \<in> set (snd (check_env_setup env)) \<Longrightarrow> \<exists>t. a = Print t"
  by (auto simp: check_env_setup_def Let_def split: if_splits)

lemma check_requirements_ok:
  "fst (check_requirements env) \<Longrightarrow> check_requirements env = (True, [])"
  by (auto simp: check_requirements_def Let_def split: if_splits)

text \<open>
  Claim C6, as the code has it. With the application file in place: when the package
  check passes, the launcher goes on to start the server with the command that names port
  8501, everything before that is printing, and a failed environment check is among it as
  a warning; when the package check fails, the launcher prints the missing packages and
  exits with status 1 without starting the server.
\<close>

theorem launcher_checks:
  assumes "app_exists env"
  shows "(fst (check_requirements env) \<longrightarrow>
           (\<exists>before after.
              run_streamlit_main env = before @ [Run (streamlit_command env)] @ after \<and>
              (\<forall>a \<in> set before. \<exists>t. a = Print t) \<and>
              (\<not> fst (check_env_setup env) \<longrightarrow>
                 Print ''Some environment variables missing (you can set them in the UI)''
                   \<in> set before))) \<and>
         (\<not> fst (check_requirements env) \<longrightarrow>
            run_streamlit_main env =
              launcher_prelude env @ snd (check_requirements env) @ [SysExit 1] \<and>
            (\<forall>cmd. Run cmd \<notin> set (run_streamlit_main env))) \<and>
         drop 7 (streamlit_command env) = [''--server.port'', ''8501'']"
proof (intro conjI impI)
  assume ok: "fst (check_requirements env)"
  let ?before = "launcher_prelude env @
       [Print ''Requirements check passed'', Print ''Checking environment setup...''] @
       snd (check_env_setup env) @
       [Print (if fst (check_env_setup env) then ''Environment variables configured''
               else ''Some environment variables missing (you can set them in the UI)''),
        Print (LF # ''Starting Streamlit application...''),
        Print ''The application will open in your default web browser.'',
        Print (''If it doesn'' @ [SQUOTE] @ ''t open automatically, go to: http://localhost:8501''),
        Print (LF # replicate 50 (CHR ''=''))]"
  let ?after = "(case server_outcome env of
        Completed \<Rightarrow> []
      | KeyboardInterrupt \<Rightarrow> [Print (LF # ''Application stopped by user'')]
      | CalledProcessError e \<Rightarrow> [Print (''Error running Streamlit: '' @ e), SysExit 1]
      | FileNotFoundError \<Rightarrow>
          [Print ''Streamlit not found. Please install it using: pip install streamlit'',
           SysExit 1])"
  have eq: "run_streamlit_main env = ?before @ [Run (streamlit_command env)] @ ?after"
    using assms check_requirements_ok [OF ok]
    by (simp add: run_streamlit_main_def launcher_prelude_def start_streamlit_def
        split: prod.splits)
  have pr: "\<forall>a \<in> set ?before. \<exists>t. a = Print t"
    using check_env_setup_prints [of _ env] by (auto simp: launcher_prelude_def)
  have w: "\<not> fst (check_env_setup env) \<longrightarrow>
     Print ''Some environment variables missing (you can set them in the UI)'' \<in> set ?before"
    by simp
  from eq pr w
  show "\<exists>before after.
              run_streamlit_main env = before @ [Run (streamlit_command env)] @ after \<and>
              (\<forall>a \<in> set before. \<exists>t. a = Print t) \<and>
              (\<not> fst (check_env_setup env) \<longrightarrow>
                 Print ''Some environment variables missing (you can set them in the UI)''
                   \<in> set before)"
    by blast
next
  assume bad: "\<not> fst (check_requirements env)"
  then show eq: "run_streamlit_main env =
              launcher_prelude env @ snd (check_requirements env) @ [SysExit 1]"
    using assms
    by (auto simp: run_streamlit_main_def launcher_prelude_def split: prod.splits bool.splits)
  show "\<forall>cmd. Run cmd \<notin> set (run_streamlit_main env)"
    unfolding eq using check_requirements_prints [of _ env]
    by (auto simp: launcher_prelude_def)
next
  show "drop 7 (streamlit_command env) = [''--server.port'', ''8501'']"
    by (simp add: streamlit_command_def)
qed

lemma demo_env_checks:
  "app_exists demo_env" "fst (check_requirements demo_env)" "\<not> fst (check_env_setup demo_env)"
  by (simp_all add: demo_env_def check_requirements_def check_env_setup_def
      required_packages_def required_env_vars_def)

theorem launcher_checks_witness:
  "app_exists demo_env \<and> fst (check_requirements demo_env) \<and>
   \<not> fst (check_env_setup demo_env) \<and>
   (\<exists>before after.
      run_streamlit_main demo_env = before @ [Run (streamlit_command demo_env)] @ after \<and>
      (\<forall>a \<in> set before. \<exists>t. a = Print t) \<and>
      Print ''Some environment variables missing (you can set them in the UI)'' \<in> set before)"
  using launcher_checks [OF demo_env_checks(1)] demo_env_checks by blast

text \<open>
  The claim C6 as stated fails: with \<open>plotly\<close> missing the launcher exits and never
  starts the server.
\<close>

theorem launcher_exits_on_missing_package:
  "run_streamlit_main demo_env_no_plotly =
     [Print ''TradingAgents Streamlit Application'', Print (replicate 50 (CHR ''='')),
      Print ''Running from: /app'', Print ''Checking requirements...'',
      Print ''Missing required packages: plotly'', Print ''Please install them using:'',
      Print ''pip install plotly'', SysExit 1]"
  by (simp add: run_streamlit_main_def demo_env_no_plotly_def demo_env_def
      check_requirements_def required_packages_def)

section \<open>Results about the presentation formatter\<close>

lemma ratio_half:
  assumes "0 < d"
  shows "(1 / 2 \<le> real r / real d) = (d \<le> 2 * r)"
    and "(real r / real d \<le> 1 / 2) = (2 * r \<le> d)"
    and "(real r / real d = 1 / 2) = (2 * r = d)"
proof -
  have d: "0 < real d" using assms by simp
  have "(1 / 2 \<le> real r / real d) = (real d \<le> real (2 * r))"
    using d by (simp add: field_simps)
  then show "(1 / 2 \<le> real r / real d) = (d \<le> 2 * r)" by (simp only: of_nat_le_iff)
  have "(real r / real d \<le> 1 / 2) = (real (2 * r) \<le> real d)"
    using d by (simp add: field_simps)
  then show "(real r / real d \<le> 1 / 2) = (2 * r \<le> d)" by (simp only: of_nat_le_iff)
  have "(real r / real d = 1 / 2) = (real (2 * r) = real d)"
    using d by (auto simp: field_simps)
  then show "(real r / real d = 1 / 2) = (2 * r = d)" by (simp only: of_nat_eq_iff)
qed

lemma round_half_even_nearest:
  assumes "0 < d"
  shows "\<bar>real (round_half_even n d) - real n / real d\<bar> \<le> 1 / 2 \<and>
         (\<bar>real (round_half_even n d) - real n / real d\<bar> = 1 / 2 \<longrightarrow>
            even (round_half_even n d))"
proof -
  define q where "q = n div d"
  define r where "r = n mod d"
  define f where "f = real r / real d"
  have n: "n = q * d + r" by (simp add: q_def r_def)
  have r: "r < d" using assms by (simp add: r_def)
  have frac: "real n / real d = real q + f"
    using assms by (simp add: n f_def field_simps)
  have f: "0 \<le> f" "f < 1" using r assms by (simp_all add: f_def)
  note h = ratio_half [OF assms, of r, folded f_def]
  show ?thesis
  proof (cases "d < 2 * r \<or> (2 * r = d \<and> odd q)")
    case True
    then have v: "round_half_even n d = q + 1"
      by (simp add: round_half_even_def Let_def q_def r_def)
    have diff: "real (round_half_even n d) - real n / real d = 1 - f"
      by (simp add: v frac)
    from True have "d \<le> 2 * r" by auto
    with h(1) have "1 / 2 \<le> f" by simp
    with f have a: "\<bar>1 - f\<bar> \<le> 1 / 2" by simp
    have "even (q + 1)" if "\<bar>1 - f\<bar> = 1 / 2"
    proof -
      from that f have "f = 1 / 2" by simp
      with h(3) have "2 * r = d" by simp
      with True show ?thesis by auto
    qed
    with a show ?thesis unfolding diff unfolding v by blast
  next
    case False
    then have v: "round_half_even n d = q"
      by (simp add: round_half_even_def Let_def q_def r_def)
    have diff: "real (round_half_even n d) - real n / real d = - f"
      by (simp add: v frac)
    from False have "2 * r \<le> d" by auto
    with h(2) have "f \<le> 1 / 2" by simp
    with f have a: "\<bar>- f\<bar> \<le> 1 / 2" by simp
    have "even q" if "\<bar>- f\<bar> = 1 / 2"
    proof -
      from that f have "f = 1 / 2" by simp
      with h(3) have "2 * r = d" by simp
      with False show ?thesis by auto
    qed
    with a show ?thesis unfolding diff unfolding v by blast
  qed
qed

lemma hundredths_nearest:
  "\<bar>real (hundredths m e) - magnitude m e * 100\<bar> \<le> 1 / 2 \<and>
   (\<bar>real (hundredths m e) - magnitude m e * 100\<bar> = 1 / 2 \<longrightarrow> even (hundredths m e))"
proof (cases "0 \<le> e")
  case True
  then have "real (hundredths m e) - magnitude m e * 100 = 0"
    by (simp add: hundredths_def magnitude_def)
  then show ?thesis by simp
next
  case False
  have d: "0 < (2::nat) ^ nat (- e)" by simp
  have "magnitude m e * 100 = real (m * 100) / real ((2::nat) ^ nat (- e))"
    using False by (simp add: magnitude_def)
  moreover have "hundredths m e = round_half_even (m * 100) (2 ^ nat (- e))"
    using False by (simp add: hundredths_def)
  ultimately show ?thesis using round_half_even_nearest [OF d, of "m * 100"] by simp
qed

lemma hundredths_12_345: "hundredths 6949617174986097 (- 49) = 1235"
  by (simp add: hundredths_def round_half_even_def Let_def)

lemma fixed2_1235: "fixed2 1235 = ''12.35''"
  by code_simp

lemma format_12_345: "format_percentage float_12_345 = ''12.35%''"
  by (simp add: float_12_345_def hundredths_12_345 fixed2_1235)

lemma zpad_2: "zpad 2 n = [digit (n div 10), digit n]"
  by (simp add: numeral_2_eq_2)

lemma digit_mod_10: "digit (n mod 10) = digit n"
  by (simp add: digit_def)

lemma digit_mod_100: "digit (n mod 100) = digit n"
  by (simp add: digit_def mod_mod_cancel)

lemma format_tie: "format_percentage (Finite False 1 (- 3)) = ''0.12%''"
  by code_simp

lemma half_up_tie: "fixed2 (round_half_up (1 * 100) (2 ^ 3)) = ''0.13''"
  by code_simp

lemma magnitude_tie: "magnitude 1 (- 3) = 0.125"
  by (simp add: magnitude_def)

lemma hundredths_tie: "hundredths 1 (- 3) = 12"
  by code_simp

text \<open>
  Claim C9, as the code has it. \<open>format_percentage\<close> of a finite float is its sign, the
  integer part, a point, exactly two decimals and the percent sign, where the number of
  hundredths is the integer nearest to a hundred times the exact binary value, a tie going
  to the even one. \<open>format_percentage(12.345)\<close> is \<open>12.35%\<close>, as the double lies above 12.345.
\<close>

theorem format_percentage_two_decimals:
  "format_percentage (Finite sg m e) =
     (if sg then ''-'' else []) @ str_nat (hundredths m e div 100) @ ''.'' @
     [digit (hundredths m e mod 100 div 10), digit (hundredths m e mod 10)] @ ''%'' \<and>
   \<bar>real (hundredths m e) - magnitude m e * 100\<bar> \<le> 1 / 2 \<and>
   (\<bar>real (hundredths m e) - magnitude m e * 100\<bar> = 1 / 2 \<longrightarrow> even (hundredths m e)) \<and>
   format_percentage float_12_345 = ''12.35%''"
  using hundredths_nearest [of m e] format_12_345
  by (simp add: fixed2_def zpad_2 digit_mod_10 digit_mod_100)

theorem format_percentage_two_decimals_witness:
  "\<bar>real (hundredths 1 (- 3)) - magnitude 1 (- 3) * 100\<bar> = 1 / 2 \<and>
   even (hundredths 1 (- 3)) \<and>
   format_percentage (Finite False 1 (- 3)) = ''0.12%''"
proof -
  have t: "\<bar>real (hundredths 1 (- 3)) - magnitude 1 (- 3) * 100\<bar> = 1 / 2"
    unfolding hundredths_tie magnitude_tie by simp
  from format_percentage_two_decimals [of False 1 "- 3"] t format_tie
  show ?thesis by blast
qed

text \<open>
  The claim C9 as stated fails: 0.125 is a float, a tie between 0.12 and 0.13, and is
  printed as \<open>0.12%\<close>, where rounding half-up gives 0.13.
\<close>

theorem format_percentage_not_half_up:
  "magnitude 1 (- 3) = 0.125 \<and>
   format_percentage (Finite False 1 (- 3)) = ''0.12%'' \<and>
   fixed2 (round_half_up (1 * 100) (2 ^ 3)) = ''0.13'' \<and>
   format_percentage (Finite False 1 (- 3)) \<noteq> fixed2 (round_half_up (1 * 100) (2 ^ 3)) @ ''%''"
  unfolding magnitude_tie format_tie half_up_tie by simp

section \<open>Results about the renderers\<close>




























section \<open>Results about the export\<close>












































end
